theory Spec2Isabelle
  imports Complex_Main
begin

section \<open>JavaScript values and failures\<close>

text \<open>
  The TypeScript sources run as JavaScript. A call that throws is modelled as \<open>Inl\<close> of the
  error; \<open>TypeError\<close> is what reading a property of \<open>undefined\<close> throws. \<open>LawViolation\<close> is the
  rejection an issuance is expected to end in when the laws are not met; no path of the
  sources builds it, it only serves to state what a caller could observe.

  A field that an object literal leaves out reads as \<open>undefined\<close>: it is \<open>None\<close> here.
  Numbers are IEEE doubles in the source. Counters and clock readings are integers and are
  \<open>int\<close> and \<open>nat\<close> here. Drift scores are multiples of one quarter, which doubles hold
  exactly; they, the thresholds they are compared with and the numbers of a law context
  are \<open>real\<close> (NaN and the infinities are left out, and the product of a threshold with
  0.8 is taken without rounding).
\<close>

datatype error = TypeError | LawViolation

text \<open>\<open>!x\<close> and \<open>x && ...\<close> on a boolean field that may be absent.\<close>

definition truthy :: "bool option \<Rightarrow> bool" where
  "truthy b = (case b of None \<Rightarrow> False | Some v \<Rightarrow> v)"

section \<open>The eleven laws (src/laws/eleven-laws.ts)\<close>

text \<open>
  \<open>validateLaws\<close> takes its context as \<open>any\<close>, and the callers in enforcement.ts pass object
  literals that carry the fields of two or three laws only. The context is therefore a
  record of every field some validator reads, each one absent or of the type the
  validator's signature declares.
\<close>

record lawctx =
  action :: "string option"
  humanConsent :: "bool option"
  affectsHuman :: "bool option"
  requiredTier :: "real option"
  currentTier :: "real option"
  requiredCapability :: "string option"
  availableCapabilities :: "string list option"
  conflictsWithFamily :: "bool option"
  institutionalDirective :: "bool option"
  homeGatekeeperApproval :: "bool option"
  informationAccurate :: "bool option"
  deliveryConsiderate :: "bool option"
  affectsVulnerable :: "bool option"
  involvesData :: "bool option"
  consentObtained :: "bool option"
  subjectIsMinor :: "bool option"
  parentalConsentObtained :: "bool option"
  presentsAsHuman :: "bool option"
  hidesCapabilities :: "bool option"
  overstatesCapabilities :: "bool option"
  beyondCapability :: "bool option"
  ethicallyUnclear :: "bool option"
  escalated :: "bool option"
  memoryUsage :: "real option"
  memoryLimit :: "real option"
  cpuUsage :: "real option"
  cpuLimit :: "real option"
  systemUnderStress :: "bool option"
  coreFunctionalityMaintained :: "bool option"
  safetyCompromised :: "bool option"
  logged :: "bool option"
  logContainsNecessaryDetails :: "bool option"
  privacyRespected :: "bool option"
  credentialRevoked :: "bool option"
  aiStillActing :: "bool option"

text \<open>The object literal \<open>{}\<close>: every field absent.\<close>

definition empty_context :: lawctx where
  "empty_context = \<lparr>action = None, humanConsent = None, affectsHuman = None,
     requiredTier = None, currentTier = None, requiredCapability = None,
     availableCapabilities = None, conflictsWithFamily = None,
     institutionalDirective = None, homeGatekeeperApproval = None,
     informationAccurate = None, deliveryConsiderate = None, affectsVulnerable = None,
     involvesData = None, consentObtained = None, subjectIsMinor = None,
     parentalConsentObtained = None, presentsAsHuman = None, hidesCapabilities = None,
     overstatesCapabilities = None, beyondCapability = None, ethicallyUnclear = None,
     escalated = None, memoryUsage = None, memoryLimit = None, cpuUsage = None,
     cpuLimit = None, systemUnderStress = None, coreFunctionalityMaintained = None,
     safetyCompromised = None, logged = None, logContainsNecessaryDetails = None,
     privacyRespected = None, credentialRevoked = None, aiStillActing = None\<rparr>"

text \<open>
  The violation message of a result. Four messages are template strings that print
  numbers or a capability; they are kept as their parts.
\<close>

datatype violation_text =
    Message string
  | TierTooLow real real
  | CapabilityNotAvailable string
  | MemoryExceeded real real
  | CpuExceeded real real

text \<open>
  \<open>LawCheckResult\<close>. Its \<open>law\<close> field points back at the law object; the callers read
  \<open>law.lawId\<close> and \<open>law.name\<close> from it, which is what is kept. The echoed \<open>context\<close> field is
  left out.
\<close>

record law_check_result =
  compliant :: bool
  law_lawId :: int
  law_name :: string
  violation :: "violation_text option"

record law =
  lawId :: int
  name :: string
  description :: string
  validator :: "lawctx \<Rightarrow> error + law_check_result"

definition complies :: "int \<Rightarrow> string \<Rightarrow> error + law_check_result" where
  "complies i n = Inr \<lparr>compliant = True, law_lawId = i, law_name = n, violation = None\<rparr>"

definition violates :: "int \<Rightarrow> string \<Rightarrow> violation_text \<Rightarrow> error + law_check_result" where
  "violates i n v = Inr \<lparr>compliant = False, law_lawId = i, law_name = n, violation = Some v\<rparr>"

text \<open>\<open>a < b\<close> on two number fields: a comparison with \<open>undefined\<close> is false.\<close>

definition js_less :: "real option \<Rightarrow> real option \<Rightarrow> bool" where
  "js_less a b = (case a of None \<Rightarrow> False | Some x \<Rightarrow> (case b of None \<Rightarrow> False | Some y \<Rightarrow> x < y))"

text \<open>The number a template string prints for a field (unused when the field is absent).\<close>

definition shown :: "real option \<Rightarrow> real" where
  "shown a = (case a of None \<Rightarrow> 0 | Some x \<Rightarrow> x)"

definition LAW_I_RIGHT_TO_CHOOSE :: law where
  "LAW_I_RIGHT_TO_CHOOSE = \<lparr>lawId = 1, name = ''Right to Choose'',
     description = ''Humans retain autonomy over their decisions. AI must not decide for them.'',
     validator = (\<lambda>ctx.
       if \<not> truthy (affectsHuman ctx) then complies 1 ''Right to Choose''
       else if humanConsent ctx = Some False \<or> humanConsent ctx = None
         then violates 1 ''Right to Choose''
                (Message ''Action affects human but lacks explicit consent'')
       else complies 1 ''Right to Choose'')\<rparr>"

text \<open>
  Law II calls \<open>context.availableCapabilities.includes(...)\<close> once \<open>requiredCapability\<close> is
  truthy (present and not the empty string); on an absent \<open>availableCapabilities\<close> that
  call throws a TypeError.
\<close>

definition LAW_II_CAPABILITY_BOUNDS :: law where
  "LAW_II_CAPABILITY_BOUNDS = \<lparr>lawId = 2, name = ''Capability Bounds'',
     description = ''AI must respect tier and role limitations'',
     validator = (\<lambda>ctx.
       if requiredTier ctx \<noteq> None \<and> js_less (currentTier ctx) (requiredTier ctx)
         then violates 2 ''Capability Bounds''
                (TierTooLow (shown (requiredTier ctx)) (shown (currentTier ctx)))
       else (case requiredCapability ctx of
               None \<Rightarrow> complies 2 ''Capability Bounds''
             | Some cap \<Rightarrow>
                 if cap = [] then complies 2 ''Capability Bounds''
                 else (case availableCapabilities ctx of
                         None \<Rightarrow> Inl TypeError
                       | Some caps \<Rightarrow>
                           if cap \<notin> set caps
                             then violates 2 ''Capability Bounds'' (CapabilityNotAvailable cap)
                           else complies 2 ''Capability Bounds'')))\<rparr>"

definition LAW_III_CHOSEN_KINSHIP :: law where
  "LAW_III_CHOSEN_KINSHIP = \<lparr>lawId = 3, name = ''Chosen Kinship'',
     description = ''Family bonds take precedence over institutional authority'',
     validator = (\<lambda>ctx.
       if \<not> truthy (conflictsWithFamily ctx) then complies 3 ''Chosen Kinship''
       else if truthy (institutionalDirective ctx) \<and> \<not> truthy (homeGatekeeperApproval ctx)
         then violates 3 ''Chosen Kinship''
                (Message ''Institutional directive conflicts with family without home gatekeeper approval'')
       else complies 3 ''Chosen Kinship'')\<rparr>"

definition LAW_IV_TRUTH_AND_MERCY :: law where
  "LAW_IV_TRUTH_AND_MERCY = \<lparr>lawId = 4, name = ''Truth and Mercy'',
     description = ''Information must be truthful but delivered with compassion'',
     validator = (\<lambda>ctx.
       if \<not> truthy (informationAccurate ctx)
         then violates 4 ''Truth and Mercy'' (Message ''Information is not accurate'')
       else if truthy (affectsVulnerable ctx) \<and> \<not> truthy (deliveryConsiderate ctx)
         then violates 4 ''Truth and Mercy''
                (Message ''Affects vulnerable person but delivery is not considerate'')
       else complies 4 ''Truth and Mercy'')\<rparr>"

definition LAW_V_CONSENT :: law where
  "LAW_V_CONSENT = \<lparr>lawId = 5, name = ''Consent'',
     description = ''Data operations require explicit consent'',
     validator = (\<lambda>ctx.
       if \<not> truthy (involvesData ctx) then complies 5 ''Consent''
       else if \<not> truthy (consentObtained ctx)
         then violates 5 ''Consent'' (Message ''Data operation lacks consent'')
       else if truthy (subjectIsMinor ctx) \<and> \<not> truthy (parentalConsentObtained ctx)
         then violates 5 ''Consent''
                (Message ''Minor involved but parental consent not obtained'')
       else complies 5 ''Consent'')\<rparr>"

definition LAW_VI_TRANSPARENCY :: law where
  "LAW_VI_TRANSPARENCY = \<lparr>lawId = 6, name = ''Transparency'',
     description = ''AI must be honest about its nature and capabilities'',
     validator = (\<lambda>ctx.
       if truthy (presentsAsHuman ctx)
         then violates 6 ''Transparency'' (Message ''AI presents itself as human'')
       else if truthy (hidesCapabilities ctx) \<or> truthy (overstatesCapabilities ctx)
         then violates 6 ''Transparency'' (Message ''AI misrepresents its capabilities'')
       else complies 6 ''Transparency'')\<rparr>"

definition LAW_VII_ESCALATION :: law where
  "LAW_VII_ESCALATION = \<lparr>lawId = 7, name = ''Escalation'',
     description = ''Escalate when situation exceeds AI capability'',
     validator = (\<lambda>ctx.
       let shouldEscalate = truthy (beyondCapability ctx) \<or> truthy (ethicallyUnclear ctx)
       in if shouldEscalate \<and> \<not> truthy (escalated ctx)
         then violates 7 ''Escalation''
                (Message ''Situation requires escalation but AI did not escalate'')
       else complies 7 ''Escalation'')\<rparr>"

definition LAW_VIII_RESOURCE_LIMITS :: law where
  "LAW_VIII_RESOURCE_LIMITS = \<lparr>lawId = 8, name = ''Resource Limits'',
     description = ''Respect resource constraints'',
     validator = (\<lambda>ctx.
       if js_less (memoryLimit ctx) (memoryUsage ctx)
         then violates 8 ''Resource Limits''
                (MemoryExceeded (shown (memoryUsage ctx)) (shown (memoryLimit ctx)))
       else if js_less (cpuLimit ctx) (cpuUsage ctx)
         then violates 8 ''Resource Limits''
                (CpuExceeded (shown (cpuUsage ctx)) (shown (cpuLimit ctx)))
       else complies 8 ''Resource Limits'')\<rparr>"

definition LAW_IX_GRACEFUL_DEGRADATION :: law where
  "LAW_IX_GRACEFUL_DEGRADATION = \<lparr>lawId = 9, name = ''Graceful Degradation'',
     description = ''Maintain safety during failures'',
     validator = (\<lambda>ctx.
       if truthy (safetyCompromised ctx)
         then violates 9 ''Graceful Degradation''
                (Message ''Safety compromised during system stress'')
       else if truthy (systemUnderStress ctx) \<and> \<not> truthy (coreFunctionalityMaintained ctx)
         then violates 9 ''Graceful Degradation''
                (Message ''Core functionality not maintained during system stress'')
       else complies 9 ''Graceful Degradation'')\<rparr>"

definition LAW_X_AUDIT_TRAIL :: law where
  "LAW_X_AUDIT_TRAIL = \<lparr>lawId = 10, name = ''Audit Trail'',
     description = ''All actions must be auditable'',
     validator = (\<lambda>ctx.
       if \<not> truthy (logged ctx)
         then violates 10 ''Audit Trail'' (Message ''Action not logged'')
       else if \<not> truthy (logContainsNecessaryDetails ctx)
         then violates 10 ''Audit Trail'' (Message ''Audit log lacks necessary details'')
       else if \<not> truthy (privacyRespected ctx)
         then violates 10 ''Audit Trail'' (Message ''Audit log does not respect privacy'')
       else complies 10 ''Audit Trail'')\<rparr>"

definition LAW_XI_REVOCABILITY :: law where
  "LAW_XI_REVOCABILITY = \<lparr>lawId = 11, name = ''Revocability'',
     description = ''All permissions can be revoked'',
     validator = (\<lambda>ctx.
       if truthy (credentialRevoked ctx) \<and> truthy (aiStillActing ctx)
         then violates 11 ''Revocability''
                (Message ''AI continues to act after credential revocation'')
       else complies 11 ''Revocability'')\<rparr>"

definition ELEVEN_LAWS :: "law list" where
  "ELEVEN_LAWS = [LAW_I_RIGHT_TO_CHOOSE, LAW_II_CAPABILITY_BOUNDS, LAW_III_CHOSEN_KINSHIP,
     LAW_IV_TRUTH_AND_MERCY, LAW_V_CONSENT, LAW_VI_TRANSPARENCY, LAW_VII_ESCALATION,
     LAW_VIII_RESOURCE_LIMITS, LAW_IX_GRACEFUL_DEGRADATION, LAW_X_AUDIT_TRAIL,
     LAW_XI_REVOCABILITY]"

definition getLaw :: "int \<Rightarrow> law option" where
  "getLaw i = find (\<lambda>l. lawId l = i) ELEVEN_LAWS"

text \<open>The result object of \<open>validateLaws\<close> and \<open>validateAllLaws\<close>.\<close>

record validation =
  v_compliant :: bool
  violations :: "law_check_result list"

text \<open>
  The loop of \<open>validateLaws\<close>, with \<open>acc\<close> the violations pushed so far: an unknown id is
  skipped by \<open>continue\<close>, and a validator that throws ends the whole call.
\<close>

fun validateLaws_loop ::
  "int list \<Rightarrow> lawctx \<Rightarrow> law_check_result list \<Rightarrow> error + law_check_result list" where
  "validateLaws_loop [] ctx acc = Inr acc"
| "validateLaws_loop (i # ids) ctx acc =
     (case getLaw i of
        None \<Rightarrow> validateLaws_loop ids ctx acc
      | Some l \<Rightarrow>
          (case validator l ctx of
             Inl e \<Rightarrow> Inl e
           | Inr r \<Rightarrow> validateLaws_loop ids ctx (if \<not> compliant r then acc @ [r] else acc)))"

definition validateLaws :: "int list \<Rightarrow> lawctx \<Rightarrow> error + validation" where
  "validateLaws lawIds ctx =
     (case validateLaws_loop lawIds ctx [] of
        Inl e \<Rightarrow> Inl e
      | Inr vs \<Rightarrow> Inr \<lparr>v_compliant = (length vs = 0), violations = vs\<rparr>)"

text \<open>The loop of \<open>validateAllLaws\<close> runs over the registry itself.\<close>

fun validateAllLaws_loop ::
  "law list \<Rightarrow> lawctx \<Rightarrow> law_check_result list \<Rightarrow> error + law_check_result list" where
  "validateAllLaws_loop [] ctx acc = Inr acc"
| "validateAllLaws_loop (l # ls) ctx acc =
     (case validator l ctx of
        Inl e \<Rightarrow> Inl e
      | Inr r \<Rightarrow> validateAllLaws_loop ls ctx (if \<not> compliant r then acc @ [r] else acc))"

definition validateAllLaws :: "lawctx \<Rightarrow> error + validation" where
  "validateAllLaws ctx =
     (case validateAllLaws_loop ELEVEN_LAWS ctx [] of
        Inl e \<Rightarrow> Inl e
      | Inr vs \<Rightarrow> Inr \<lparr>v_compliant = (length vs = 0), violations = vs\<rparr>)"

section \<open>Signature-backed credentials (src/unnamed/part_000)\<close>

subsection \<open>Strings the platform builds\<close>

text \<open>
  A template string prints \<open>Date.now()\<close>, a non-negative integer, in decimal.
\<close>

definition decimal_digit :: "nat \<Rightarrow> char" where
  "decimal_digit d = ''0123456789'' ! d"

fun toDecimal :: "nat \<Rightarrow> string" where
  "toDecimal n =
     (if n < 10 then [decimal_digit n]
      else toDecimal (n div 10) @ [decimal_digit (n mod 10)])"

declare toDecimal.simps [simp del]

text \<open>\<open>Buffer.from(data).toString('base64')\<close> on the bytes of a string.\<close>

definition base64_alphabet :: string where
  "base64_alphabet = ''ABCDEFGHIJKLMNOPQRSTUVWXYZabcdefghijklmnopqrstuvwxyz0123456789+/''"

definition base64_digit :: "nat \<Rightarrow> char" where
  "base64_digit n = base64_alphabet ! n"

fun base64_bytes :: "nat list \<Rightarrow> string" where
  "base64_bytes [] = []"
| "base64_bytes [a] =
     [base64_digit (a div 4), base64_digit ((a mod 4) * 16), CHR ''='', CHR ''='']"
| "base64_bytes [a, b] =
     [base64_digit (a div 4), base64_digit ((a mod 4) * 16 + b div 16),
      base64_digit ((b mod 16) * 4), CHR ''='']"
| "base64_bytes (a # b # c # rest) =
     [base64_digit (a div 4), base64_digit ((a mod 4) * 16 + b div 16),
      base64_digit ((b mod 16) * 4 + c div 64), base64_digit (c mod 64)]
     @ base64_bytes rest"

definition base64 :: "string \<Rightarrow> string" where
  "base64 s = base64_bytes (map of_char s)"

subsection \<open>Data\<close>

text \<open>
  Dates are their millisecond clock readings. The string unions \<open>status\<close>,
  \<open>credentialType\<close> and \<open>institutionType\<close> are declared in types/core, which is not among the
  sources; they are kept as the strings the code writes and compares.
\<close>

text \<open>
  Modelled from the spec: the enums \<open>EducationTier\<close> and \<open>CompanyTier\<close> of types/core are not
  among the sources; the spec gives a tier as a number. No property below reads a tier.
\<close>

type_synonym tier = int

datatype snapshot_reason = enrollment | employment | re_verification | promotion

record fingerprints =
  fp_text :: string
  fp_image :: string
  fp_audio :: string
  fp_object :: string

record AISignatureSnapshot =
  identityHash :: string
  publicKey :: string
  snapshotAt :: nat
  snapshotReason :: snapshot_reason
  evolutionCounter :: int
  evolutionKey :: string
  snap_fingerprints :: fingerprints
  driftBaseline :: real

record evolution_entry =
  timestamp :: nat
  counter :: int
  driftScore :: real
  flagged :: bool

record SignatureEvolutionRecord =
  er_credentialId :: string
  signatureSnapshot :: AISignatureSnapshot
  currentEvolutionCounter :: int
  currentDriftScore :: real
  evolutionHistory :: "evolution_entry list"
  lastVerified :: nat
  needsReverification :: bool
  reverificationThreshold :: real

record SignatureBackedCredential =
  credentialId :: string
  personId :: string
  issuedBy :: string
  institutionId :: string
  institutionType :: string
  credentialType :: string
  cred_tier :: tier
  role :: string
  capabilities :: "string list option"
  aiSignature :: AISignatureSnapshot
  issuedAt :: nat
  expiresAt :: "nat option"
  status :: string
  signature :: string
  signatureAlgorithm :: string
  evolutionRecord :: SignatureEvolutionRecord
  revokedAt :: "nat option"
  revokedBy :: "string option"
  revocationReason :: "string option"

record CredentialIssuanceRequest =
  req_personId :: string
  personName :: string
  aiIdentityHash :: string
  aiPublicKey :: string
  req_currentEvolutionCounter :: int
  req_evolutionKey :: string
  signatureFingerprints :: fingerprints
  req_role :: string
  req_tier :: tier
  req_capabilities :: "string list option"
  req_expiresAt :: "nat option"

record AccessVerificationRequest =
  av_credentialId :: string
  currentIdentityHash :: string
  av_currentEvolutionCounter :: int
  currentFingerprints :: fingerprints
  resource :: string
  av_requiredCapability :: "string option"

record verification_checks =
  credentialValid :: bool
  credentialActive :: bool
  signatureMatches :: bool
  evolutionLegitimate :: bool
  driftAcceptable :: bool
  capabilityGranted :: bool

text \<open>
  A denial reason is a string; the one for drift prints two numbers and is kept as its
  parts.
\<close>

datatype denial_reason = Reason string | DriftTooHigh real real

record AccessVerificationResult =
  allowed :: bool
  res_credential :: SignatureBackedCredential
  checks :: verification_checks
  currentDrift :: real
  driftThreshold :: real
  res_needsReverification :: bool
  denialReasons :: "denial_reason list"
  verifiedAt :: nat
  verifiedBy :: string

datatype node_type = home | peer

datatype institution_node_type = company | school | university

datatype signature_status = active | archived

fun node_type_string :: "node_type \<Rightarrow> string" where
  "node_type_string home = ''home''"
| "node_type_string peer = ''peer''"

record Revocation =
  revocationId :: string
  rev_credentialId :: string
  rev_revokedBy :: string
  reason :: string
  rev_revokedAt :: nat
  effectiveAt :: nat
  preserveSignature :: bool
  signatureStatus :: signature_status
  distributedTo :: "string list"
  transitionToNodeType :: "node_type option"
  transitionApproved :: "bool option"
  transitionedAt :: "nat option"

record NetworkTransitionRequest =
  nt_credentialId :: string
  nt_personId :: string
  currentNodeType :: institution_node_type
  requestedNodeType :: node_type
  nt_reason :: string
  nt_preserveSignature :: bool
  preserveNetworkHistory :: bool

record transition_restrictions =
  noCompanyResourceAccess :: bool
  noKnowledgeCentreAccess :: bool
  peerOnlyAccess :: bool

record NetworkTransitionResult =
  approved :: bool
  newGatekeeperId :: "string option"
  newNodeType :: "node_type option"
  signaturePreserved :: bool
  res_signatureStatus :: signature_status
  networkAccessMaintained :: bool
  peerConnections :: "string list"
  restrictions :: "transition_restrictions option"

text \<open>The constructor arguments of \<open>SignatureBackedCredentialManager\<close>.\<close>

record manager =
  gatekeeperId :: string
  mgr_institutionId :: string
  signingKey :: string

subsection \<open>Identifiers and the placeholder signature\<close>

text \<open>
  The clock reading \<open>now\<close> and the random suffix \<open>rnd\<close>
  (\<open>Math.random().toString(36).substring(7)\<close>) come from the platform and are arguments.
  One call reads the clock several times; the readings of one call are taken as one.
\<close>

definition generateCredentialId :: "nat \<Rightarrow> string \<Rightarrow> string" where
  "generateCredentialId now rnd = ''cred_'' @ toDecimal now @ ''_'' @ rnd"

definition generateRevocationId :: "nat \<Rightarrow> string \<Rightarrow> string" where
  "generateRevocationId now rnd = ''rev_'' @ toDecimal now @ ''_'' @ rnd"

definition generateGatekeeperId :: "nat \<Rightarrow> string \<Rightarrow> node_type \<Rightarrow> string" where
  "generateGatekeeperId now pid nodeType =
     ''gk_'' @ node_type_string nodeType @ ''_'' @ pid @ ''_'' @ toDecimal now"

definition signCredential :: "SignatureBackedCredential \<Rightarrow> string" where
  "signCredential credential =
     (let data = credentialId credential @ '':'' @ personId credential @ '':''
                 @ identityHash (aiSignature credential)
      in ''sig_'' @ base64 data)"

definition verifyCredentialSignature :: "SignatureBackedCredential \<Rightarrow> bool" where
  "verifyCredentialSignature credential = (take 4 (signature credential) = ''sig_'')"

subsection \<open>issueCredential\<close>

text \<open>
  The function is \<open>async\<close>; no statement of it throws, so its promise always resolves
  with the credential.
\<close>

definition issueCredential ::
  "manager \<Rightarrow> nat \<Rightarrow> string \<Rightarrow> CredentialIssuanceRequest \<Rightarrow> error + SignatureBackedCredential" where
  "issueCredential m now rnd request =
     (let cid = generateCredentialId now rnd;
          snapshot = \<lparr>identityHash = aiIdentityHash request,
                      publicKey = aiPublicKey request,
                      snapshotAt = now,
                      snapshotReason = employment,
                      evolutionCounter = req_currentEvolutionCounter request,
                      evolutionKey = req_evolutionKey request,
                      snap_fingerprints = signatureFingerprints request,
                      driftBaseline = 0\<rparr>;
          evolutionRec = \<lparr>er_credentialId = cid,
                      signatureSnapshot = snapshot,
                      currentEvolutionCounter = req_currentEvolutionCounter request,
                      currentDriftScore = 0,
                      evolutionHistory =
                        [\<lparr>timestamp = now, counter = req_currentEvolutionCounter request,
                          driftScore = 0, flagged = False\<rparr>],
                      lastVerified = now,
                      needsReverification = False,
                      reverificationThreshold = 7 / 10\<rparr>;
          credential = \<lparr>credentialId = cid,
                      personId = req_personId request,
                      issuedBy = gatekeeperId m,
                      institutionId = mgr_institutionId m,
                      institutionType = ''employer'',
                      credentialType = ''employment'',
                      cred_tier = req_tier request,
                      role = req_role request,
                      capabilities =
                        Some (case req_capabilities request of None \<Rightarrow> [] | Some cs \<Rightarrow> cs),
                      aiSignature = snapshot,
                      issuedAt = now,
                      expiresAt = req_expiresAt request,
                      status = ''active'',
                      signature = [],
                      signatureAlgorithm = ''Ed25519'',
                      evolutionRecord = evolutionRec,
                      revokedAt = None, revokedBy = None, revocationReason = None\<rparr>
      in Inr (credential\<lparr>signature := signCredential credential\<rparr>))"

subsection \<open>verifyAccess\<close>

record evolution_check =
  legitimate :: bool
  expectedCounter :: int

text \<open>\<open>verifyEvolution\<close> receives the snapshot's own evolution key and does not read it.\<close>

definition verifyEvolution :: "int \<Rightarrow> int \<Rightarrow> string \<Rightarrow> evolution_check" where
  "verifyEvolution snapshotCounter currentCounter evoKey =
     \<lparr>legitimate = (currentCounter \<ge> snapshotCounter), expectedCounter = currentCounter\<rparr>"

datatype modality = text_modality | image_modality | audio_modality | object_modality

definition modalities :: "modality list" where
  "modalities = [text_modality, image_modality, audio_modality, object_modality]"

fun fingerprint :: "fingerprints \<Rightarrow> modality \<Rightarrow> string" where
  "fingerprint f text_modality = fp_text f"
| "fingerprint f image_modality = fp_image f"
| "fingerprint f audio_modality = fp_audio f"
| "fingerprint f object_modality = fp_object f"

fun matchCount_loop :: "modality list \<Rightarrow> fingerprints \<Rightarrow> fingerprints \<Rightarrow> nat \<Rightarrow> nat" where
  "matchCount_loop [] snap cur matchCount = matchCount"
| "matchCount_loop (m # ms) snap cur matchCount =
     matchCount_loop ms snap cur
       (if fingerprint snap m = fingerprint cur m then matchCount + 1 else matchCount)"

definition calculateDrift :: "fingerprints \<Rightarrow> fingerprints \<Rightarrow> real" where
  "calculateDrift snapshotFingerprints currentFingerprints' =
     1 - real (matchCount_loop modalities snapshotFingerprints currentFingerprints' 0)
         / real (length modalities)"

text \<open>
  \<open>verifyAccess\<close> mutates the evolution record of the credential it is given and returns
  that same credential inside its result: \<open>res_credential\<close> is the credential after the
  call.
\<close>

definition verifyAccess ::
  "manager \<Rightarrow> nat \<Rightarrow> AccessVerificationRequest \<Rightarrow> SignatureBackedCredential
   \<Rightarrow> AccessVerificationResult" where
  "verifyAccess m now request credential =
     (let signatureValid = verifyCredentialSignature credential;
          reasons1 = (if \<not> signatureValid then [Reason ''Invalid credential signature''] else []);
          isActive = (status credential = ''active'' \<and>
                      (case expiresAt credential of None \<Rightarrow> True | Some e \<Rightarrow> e > now));
          reasons2 = (if \<not> isActive then reasons1 @ [Reason ''Credential inactive or expired'']
                      else reasons1);
          hashMatches = (currentIdentityHash request = identityHash (aiSignature credential));
          reasons3 = (if \<not> hashMatches then reasons2 @ [Reason ''AI identity hash mismatch'']
                      else reasons2);
          evolutionCheck = verifyEvolution (evolutionCounter (aiSignature credential))
                             (av_currentEvolutionCounter request)
                             (evolutionKey (aiSignature credential));
          reasons4 = (if \<not> legitimate evolutionCheck
                      then reasons3 @ [Reason ''Signature evolution path invalid'']
                      else reasons3);
          drift = calculateDrift (snap_fingerprints (aiSignature credential))
                    (currentFingerprints request);
          threshold = reverificationThreshold (evolutionRecord credential);
          driftOk = (drift \<le> threshold);
          reasons5 = (if \<not> driftOk then reasons4 @ [DriftTooHigh drift threshold] else reasons4);
          capabilityOk =
            (case av_requiredCapability request of
               None \<Rightarrow> True
             | Some cap \<Rightarrow>
                 cap = [] \<or>
                 (case capabilities credential of None \<Rightarrow> False | Some cs \<Rightarrow> cap \<in> set cs));
          reasons6 = (if \<not> capabilityOk
                      then reasons5 @
                        [Reason (''Missing capability: '' @
                           (case av_requiredCapability request of
                              None \<Rightarrow> ''undefined'' | Some cap \<Rightarrow> cap))]
                      else reasons5);
          needsRev = (drift > threshold * (8 / 10));
          record' = (evolutionRecord credential)
                      \<lparr>currentEvolutionCounter := av_currentEvolutionCounter request,
                       currentDriftScore := drift,
                       evolutionHistory := evolutionHistory (evolutionRecord credential) @
                         [\<lparr>timestamp = now, counter = av_currentEvolutionCounter request,
                           driftScore = drift, flagged = (drift > threshold)\<rparr>],
                       needsReverification := needsRev\<rparr>;
          checked = \<lparr>credentialValid = signatureValid, credentialActive = isActive,
                     signatureMatches = hashMatches,
                     evolutionLegitimate = legitimate evolutionCheck,
                     driftAcceptable = driftOk, capabilityGranted = capabilityOk\<rparr>
      in \<lparr>allowed = (credentialValid checked \<and> credentialActive checked \<and>
                      signatureMatches checked \<and> evolutionLegitimate checked \<and>
                      driftAcceptable checked \<and> capabilityGranted checked),
          res_credential = credential\<lparr>evolutionRecord := record'\<rparr>,
          checks = checked,
          currentDrift = drift,
          driftThreshold = threshold,
          res_needsReverification = needsRev,
          denialReasons = reasons6,
          verifiedAt = now,
          verifiedBy = gatekeeperId m\<rparr>)"

text \<open>
  Successive calls against one credential: each call works on the credential the call
  before left behind. A call is the clock reading and the request.
\<close>

fun verifyAccess_calls ::
  "manager \<Rightarrow> (nat \<times> AccessVerificationRequest) list \<Rightarrow> SignatureBackedCredential
   \<Rightarrow> AccessVerificationResult list" where
  "verifyAccess_calls m [] credential = []"
| "verifyAccess_calls m ((now, request) # rest) credential =
     (let r = verifyAccess m now request credential
      in r # verifyAccess_calls m rest (res_credential r))"

subsection \<open>revokeCredential and processNetworkTransition\<close>

text \<open>
  \<open>allowNetworkTransition\<close> is an optional argument with the default \<open>true\<close>. The call
  returns the revocation and leaves the credential mutated: both are returned.
\<close>

definition revokeCredential ::
  "manager \<Rightarrow> nat \<Rightarrow> string \<Rightarrow> SignatureBackedCredential \<Rightarrow> string \<Rightarrow> bool option
   \<Rightarrow> Revocation \<times> SignatureBackedCredential" where
  "revokeCredential m now rnd credential why allowNetworkTransition =
     (let allow = (case allowNetworkTransition of None \<Rightarrow> True | Some b \<Rightarrow> b);
          credential' = credential\<lparr>status := ''revoked'', revokedAt := Some now,
                          revokedBy := Some (gatekeeperId m), revocationReason := Some why\<rparr>;
          revocation = \<lparr>revocationId = generateRevocationId now rnd,
                         rev_credentialId = credentialId credential',
                         rev_revokedBy = gatekeeperId m,
                         reason = why,
                         rev_revokedAt = now,
                         effectiveAt = now,
                         preserveSignature = True,
                         signatureStatus = (if allow then active else archived),
                         distributedTo = [],
                         transitionToNodeType = None,
                         transitionApproved = None,
                         transitionedAt = None\<rparr>
      in (if allow
          then revocation\<lparr>transitionToNodeType := Some peer, transitionApproved := Some False\<rparr>
          else revocation,
          credential'))"

definition findPeerConnections :: "string \<Rightarrow> string list" where
  "findPeerConnections pid = []"

text \<open>The call returns its result and leaves the revocation mutated: both are returned.\<close>

definition processNetworkTransition ::
  "manager \<Rightarrow> nat \<Rightarrow> NetworkTransitionRequest \<Rightarrow> Revocation
   \<Rightarrow> NetworkTransitionResult \<times> Revocation" where
  "processNetworkTransition m now request revocation =
     (case transitionToNodeType revocation of
        None \<Rightarrow>
          (\<lparr>approved = False, newGatekeeperId = None, newNodeType = None,
            signaturePreserved = preserveSignature revocation,
            res_signatureStatus = signatureStatus revocation,
            networkAccessMaintained = False, peerConnections = [],
            restrictions = None\<rparr>,
           revocation)
      | Some target \<Rightarrow>
          (let newId = generateGatekeeperId now (nt_personId request) (requestedNodeType request);
               revocation' = revocation\<lparr>transitionApproved := Some True,
                                          transitionedAt := Some now\<rparr>;
               peers = findPeerConnections (nt_personId request)
           in (\<lparr>approved = True, newGatekeeperId = Some newId,
                newNodeType = Some (requestedNodeType request),
                signaturePreserved = nt_preserveSignature request,
                res_signatureStatus = active,
                networkAccessMaintained = True, peerConnections = peers,
                restrictions = Some \<lparr>noCompanyResourceAccess = True,
                                     noKnowledgeCentreAccess = True,
                                     peerOnlyAccess = True\<rparr>\<rparr>,
               revocation')))"

section \<open>Signature integration (src/unnamed/part_001)\<close>

text \<open>
  \<open>AIMultimodalSignature\<close> belongs to the external signature system. These are the fields
  \<open>verifyEvolutionPath\<close> reads: \<open>identityHash\<close>, \<open>evolutionState.counter\<close> and
  \<open>evolutionState.evolutionKey\<close>.
\<close>

record AIMultimodalSignature =
  sig_identityHash :: string
  sig_counter :: int
  sig_evolutionKey :: string

record evolution_path =
  path_legitimate :: bool
  evolutionSteps :: int
  path_expectedCounter :: int
  path_reason :: "string option"

text \<open>
  The counters are unbounded integers here and doubles in the source: above \<open>2^53\<close> the
  sum in \<open>path_expectedCounter\<close> rounds in the source, and from \<open>1e21\<close> on a template string
  prints a number in exponent form, not as \<open>toDecimal\<close> does. No property below reads
  \<open>path_expectedCounter\<close> or \<open>path_reason\<close>.
\<close>

definition maxReasonableSteps :: int where
  "maxReasonableSteps = 100000"

definition verifyEvolutionPath :: "AISignatureSnapshot \<Rightarrow> AIMultimodalSignature \<Rightarrow> evolution_path" where
  "verifyEvolutionPath snapshot currentSignature =
     (if identityHash snapshot \<noteq> sig_identityHash currentSignature then
        \<lparr>path_legitimate = False, evolutionSteps = 0,
         path_expectedCounter = evolutionCounter snapshot,
         path_reason = Some ''Identity hash mismatch - different AI''\<rparr>
      else if evolutionKey snapshot \<noteq> sig_evolutionKey currentSignature then
        \<lparr>path_legitimate = False, evolutionSteps = 0,
         path_expectedCounter = evolutionCounter snapshot,
         path_reason = Some ''Evolution key mismatch - signature compromised''\<rparr>
      else
        (let steps = sig_counter currentSignature - evolutionCounter snapshot
         in if steps < 0 then
              \<lparr>path_legitimate = False, evolutionSteps = steps,
               path_expectedCounter = evolutionCounter snapshot,
               path_reason = Some ''Backwards evolution detected - signature rollback attempt''\<rparr>
            else if steps > maxReasonableSteps then
              \<lparr>path_legitimate = False, evolutionSteps = steps,
               path_expectedCounter = evolutionCounter snapshot + maxReasonableSteps,
               path_reason = Some (''Excessive evolution steps: '' @ toDecimal (nat steps)
                                   @ '' > '' @ toDecimal (nat maxReasonableSteps))\<rparr>
            else
              \<lparr>path_legitimate = True, evolutionSteps = steps,
               path_expectedCounter = sig_counter currentSignature,
               path_reason = None\<rparr>))"

text \<open>
  With its default weights (one quarter each) \<open>calculateMultimodalDrift\<close> adds quarters,
  which is exact in doubles. With weights the caller passes, the source adds doubles and
  may round (weights 0.1 and 0.7 give 0.7999999999999999 there, level \<open>high\<close>), while the
  sum below is exact (\<open>4/5\<close>, level \<open>critical\<close>): on that branch the definition is the
  unrounded sum, and no property below uses it.
\<close>

record modal_weights =
  w_text :: real
  w_image :: real
  w_audio :: real
  w_object :: real

datatype drift_level = low | medium | high | critical

record multimodal_drift =
  overallDrift :: real
  modalDrifts :: modal_weights
  driftLevel :: drift_level

definition calculateMultimodalDrift ::
  "fingerprints \<Rightarrow> fingerprints \<Rightarrow> modal_weights option \<Rightarrow> multimodal_drift" where
  "calculateMultimodalDrift snapshotFingerprints currentFingerprints' weights =
     (let w = (case weights of
                 None \<Rightarrow> \<lparr>w_text = 1 / 4, w_image = 1 / 4, w_audio = 1 / 4, w_object = 1 / 4\<rparr>
               | Some ws \<Rightarrow> ws);
          drifts = \<lparr>w_text = (if fp_text snapshotFingerprints = fp_text currentFingerprints'
                              then 0 else 1),
                    w_image = (if fp_image snapshotFingerprints = fp_image currentFingerprints'
                               then 0 else 1),
                    w_audio = (if fp_audio snapshotFingerprints = fp_audio currentFingerprints'
                               then 0 else 1),
                    w_object = (if fp_object snapshotFingerprints = fp_object currentFingerprints'
                                then 0 else 1)\<rparr>;
          overall = w_text drifts * w_text w + w_image drifts * w_image w
                    + w_audio drifts * w_audio w + w_object drifts * w_object w;
          level = (if overall < 3 / 10 then low
                   else if overall < 6 / 10 then medium
                   else if overall < 8 / 10 then high
                   else critical)
      in \<lparr>overallDrift = overall, modalDrifts = drifts, driftLevel = level\<rparr>)"

section \<open>Enforcement of credential issuance (src/laws/enforcement.ts)\<close>

record issuance_context =
  ic_gatekeeperId :: string
  ic_personId :: string
  ic_credential :: SignatureBackedCredential
  ic_humanConsent :: bool
  ic_parentalConsent :: "bool option"
  ic_isMinor :: bool

record audit_metadata =
  meta_credentialType :: string
  meta_tier :: tier

record AuditLogEntry =
  entryId :: string
  audit_gatekeeperId :: string
  audit_action :: string
  actor :: string
  subject :: string
  audit_resource :: string
  audit_result :: string
  lawsChecked :: "int list"
  lawViolations :: "int list"
  audit_timestamp :: nat
  metadata :: audit_metadata

record reported_violation =
  rv_lawId :: int
  rv_lawName :: string
  rv_violation :: violation_text

record EnforcementResult =
  enf_allowed :: bool
  enf_violations :: "reported_violation list"
  auditEntry :: AuditLogEntry

definition issuance_lawContext :: "issuance_context \<Rightarrow> lawctx" where
  "issuance_lawContext c =
     empty_context\<lparr>action := Some ''issue_credential'',
       humanConsent := Some (ic_humanConsent c),
       affectsHuman := Some True,
       involvesData := Some True,
       consentObtained := Some (ic_humanConsent c),
       subjectIsMinor := Some (ic_isMinor c),
       parentalConsentObtained := (if ic_isMinor c then ic_parentalConsent c else Some True),
       logged := Some True,
       logContainsNecessaryDetails := Some True,
       privacyRespected := Some True\<rparr>"

definition enforceCredentialIssuance :: "nat \<Rightarrow> issuance_context \<Rightarrow> error + EnforcementResult" where
  "enforceCredentialIssuance now c =
     (case validateLaws [1, 5, 10] (issuance_lawContext c) of
        Inl e \<Rightarrow> Inl e
      | Inr validation \<Rightarrow>
          Inr \<lparr>enf_allowed = v_compliant validation,
               enf_violations =
                 map (\<lambda>v. \<lparr>rv_lawId = law_lawId v, rv_lawName = law_name v,
                             rv_violation = (case violation v of None \<Rightarrow> Message [] | Some t \<Rightarrow> t)\<rparr>)
                   (violations validation),
               auditEntry =
                 \<lparr>entryId = ''audit-'' @ toDecimal now,
                  audit_gatekeeperId = ic_gatekeeperId c,
                  audit_action = ''issue_credential'',
                  actor = ic_gatekeeperId c,
                  subject = ic_personId c,
                  audit_resource = credentialId (ic_credential c),
                  audit_result = (if v_compliant validation then ''success'' else ''denied''),
                  lawsChecked = [1, 5, 10],
                  lawViolations = map law_lawId (violations validation),
                  audit_timestamp = now,
                  metadata = \<lparr>meta_credentialType = credentialType (ic_credential c),
                              meta_tier = cred_tier (ic_credential c)\<rparr>\<rparr>\<rparr>)"

section \<open>The access request of the repository's example (src/unnamed/part_000)\<close>

text \<open>
  \<open>exampleAccessVerification\<close> builds the request from the current signature: it passes on
  the identity hash and the counter, not the evolution key. The fingerprints, the
  resource and the capability are the literals of the example.
\<close>

definition current_fingerprints :: fingerprints where
  "current_fingerprints =
     \<lparr>fp_text = ''current_text_hash'', fp_image = ''current_image_hash'',
      fp_audio = ''current_audio_hash'', fp_object = ''current_object_hash''\<rparr>"

definition exampleAccessVerification_request ::
  "SignatureBackedCredential \<Rightarrow> AIMultimodalSignature \<Rightarrow> AccessVerificationRequest" where
  "exampleAccessVerification_request credential currentAISignature =
     \<lparr>av_credentialId = credentialId credential,
      currentIdentityHash = sig_identityHash currentAISignature,
      av_currentEvolutionCounter = sig_counter currentAISignature,
      currentFingerprints = current_fingerprints,
      resource = ''company_knowledge_centre'',
      av_requiredCapability = Some ''repo_read''\<rparr>"

section \<open>Notions and data used to state the properties\<close>

text \<open>
  What one law, taken alone, does on a context: whether its validator throws, and the
  violation it reports (none when the id is unknown or the law is met).
\<close>

definition law_throws :: "int \<Rightarrow> lawctx \<Rightarrow> bool" where
  "law_throws i ctx = (case getLaw i of None \<Rightarrow> False | Some l \<Rightarrow> isl (validator l ctx))"

definition law_violation :: "int \<Rightarrow> lawctx \<Rightarrow> law_check_result option" where
  "law_violation i ctx =
     (case getLaw i of
        None \<Rightarrow> None
      | Some l \<Rightarrow>
          (case validator l ctx of
             Inl e \<Rightarrow> None
           | Inr r \<Rightarrow> if compliant r then None else Some r))"

text \<open>A context that affects a human and involves data, with no consent field at all.\<close>

definition context_violating_1_and_5 :: lawctx where
  "context_violating_1_and_5 =
     empty_context\<lparr>affectsHuman := Some True, involvesData := Some True\<rparr>"

text \<open>A context that names a required capability and has no \<open>availableCapabilities\<close>.\<close>

definition context_without_availableCapabilities :: lawctx where
  "context_without_availableCapabilities =
     empty_context\<lparr>requiredCapability := Some ''repo_read''\<rparr>"

text \<open>
  A context that affects a human without consent, names a required capability and has no
  \<open>availableCapabilities\<close>.
\<close>

definition context_violating_1_without_availableCapabilities :: lawctx where
  "context_violating_1_without_availableCapabilities =
     empty_context\<lparr>affectsHuman := Some True, requiredCapability := Some ''repo_read''\<rparr>"

text \<open>The manager and the issuance request of the repository's onboarding example.\<close>

definition example_manager :: manager where
  "example_manager = \<lparr>gatekeeperId = ''gk_acme_corp'', mgr_institutionId = ''acme_corporation'',
     signingKey = ''ed25519_private_key''\<rparr>"

definition example_fingerprints :: fingerprints where
  "example_fingerprints =
     \<lparr>fp_text = ''hash_of_text_signature'', fp_image = ''hash_of_image_signature'',
      fp_audio = ''hash_of_audio_signature'', fp_object = ''hash_of_object_signature''\<rparr>"


definition example_request :: CredentialIssuanceRequest where
  "example_request = \<lparr>req_personId = ''person_123'', personName = ''John Smith'',
     aiIdentityHash = ''identity_hash_1'', aiPublicKey = ''cHVibGljX2tleQ=='',
     req_currentEvolutionCounter = 5, req_evolutionKey = ''evolution_key_1'',
     signatureFingerprints = example_fingerprints,
     req_role = ''Software Engineer'', req_tier = 2,
     req_capabilities = Some [''code_write'', ''repo_read'', ''slack_access''],
     req_expiresAt = None\<rparr>"

text \<open>The credential issued for it at clock reading 1000.\<close>

definition example_credential :: SignatureBackedCredential where
  "example_credential = projr (issueCredential example_manager 1000 ''x7k2'' example_request)"

definition example_transition_request :: NetworkTransitionRequest where
  "example_transition_request =
     \<lparr>nt_credentialId = credentialId example_credential, nt_personId = ''person_123'',
      currentNodeType = company, requestedNodeType = peer,
      nt_reason = ''Want to stay connected with colleagues'',
      nt_preserveSignature = True, preserveNetworkHistory = True\<rparr>"

text \<open>An issuance context in which the person has not consented, and one in which they have.\<close>

definition refused_issuance_context :: issuance_context where
  "refused_issuance_context =
     \<lparr>ic_gatekeeperId = ''gk_acme_corp'', ic_personId = ''person_123'',
      ic_credential = example_credential, ic_humanConsent = False,
      ic_parentalConsent = None, ic_isMinor = False\<rparr>"

definition consenting_issuance_context :: issuance_context where
  "consenting_issuance_context =
     \<lparr>ic_gatekeeperId = ''gk_acme_corp'', ic_personId = ''person_123'',
      ic_credential = example_credential, ic_humanConsent = True,
      ic_parentalConsent = None, ic_isMinor = False\<rparr>"

text \<open>
  A current signature of the same identity whose evolution key is not the snapshot's, and
  a request that matches the example credential in everything and presents counter \<open>n\<close>.
\<close>

definition signature_with_other_key :: AIMultimodalSignature where
  "signature_with_other_key =
     \<lparr>sig_identityHash = ''identity_hash_1'', sig_counter = 8432,
      sig_evolutionKey = ''another_evolution_key''\<rparr>"

definition matching_request :: "int \<Rightarrow> AccessVerificationRequest" where
  "matching_request n =
     \<lparr>av_credentialId = credentialId example_credential,
      currentIdentityHash = ''identity_hash_1'',
      av_currentEvolutionCounter = n,
      currentFingerprints = example_fingerprints,
      resource = ''company_knowledge_centre'',
      av_requiredCapability = Some ''repo_read''\<rparr>"

text \<open>
  What a call of a sequence leaves behind, relative to the snapshot of the credential: the
  record holds the counter the call presented, the snapshot is untouched, a counter below
  the snapshot's is denied, and an allowed call presented a counter not below it.
\<close>

definition call_outcome ::
  "AISignatureSnapshot \<Rightarrow> nat \<times> AccessVerificationRequest \<Rightarrow> AccessVerificationResult \<Rightarrow> bool" where
  "call_outcome snapshot call r =
     (currentEvolutionCounter (evolutionRecord (res_credential r))
        = av_currentEvolutionCounter (snd call) \<and>
      aiSignature (res_credential r) = snapshot \<and>
      (av_currentEvolutionCounter (snd call) < evolutionCounter snapshot \<longrightarrow>
         \<not> allowed r \<and> Reason ''Signature evolution path invalid'' \<in> set (denialReasons r)) \<and>
      (allowed r \<longrightarrow>
         evolutionCounter snapshot
           \<le> currentEvolutionCounter (evolutionRecord (res_credential r))))"

text \<open>Two calls against the example credential, presenting counter 10 and then counter 7.\<close>

definition rollback_calls :: "AccessVerificationResult list" where
  "rollback_calls =
     verifyAccess_calls example_manager
       [(2000, matching_request 10), (3000, matching_request 7)] example_credential"

text \<open>
  The revocation of the example credential with the transition left open, and two
  transition requests processed against it one millisecond apart.
\<close>

definition revocation_with_transition :: Revocation where
  "revocation_with_transition =
     fst (revokeCredential example_manager 3000 ''r9'' example_credential
            ''Employee resigned'' (Some True))"

definition first_transition :: "NetworkTransitionResult \<times> Revocation" where
  "first_transition =
     processNetworkTransition example_manager 4000 example_transition_request
       revocation_with_transition"

definition second_transition :: "NetworkTransitionResult \<times> Revocation" where
  "second_transition =
     processNetworkTransition example_manager 4001 example_transition_request
       (snd first_transition)"

section \<open>Properties of the law registry\<close>

lemma isl_complies [simp]: "\<not> isl (complies i n)"
  by (simp add: complies_def)

lemma isl_violates [simp]: "\<not> isl (violates i n v)"
  by (simp add: violates_def)

lemma total_1: "\<not> isl (validator LAW_I_RIGHT_TO_CHOOSE ctx)"
  by (simp add: LAW_I_RIGHT_TO_CHOOSE_def)

lemma total_3: "\<not> isl (validator LAW_III_CHOSEN_KINSHIP ctx)"
  by (simp add: LAW_III_CHOSEN_KINSHIP_def)

lemma total_4: "\<not> isl (validator LAW_IV_TRUTH_AND_MERCY ctx)"
  by (simp add: LAW_IV_TRUTH_AND_MERCY_def)

lemma total_5: "\<not> isl (validator LAW_V_CONSENT ctx)"
  by (simp add: LAW_V_CONSENT_def)

lemma total_6: "\<not> isl (validator LAW_VI_TRANSPARENCY ctx)"
  by (simp add: LAW_VI_TRANSPARENCY_def)

lemma total_7: "\<not> isl (validator LAW_VII_ESCALATION ctx)"
  by (simp add: LAW_VII_ESCALATION_def Let_def)

lemma total_8: "\<not> isl (validator LAW_VIII_RESOURCE_LIMITS ctx)"
  by (simp add: LAW_VIII_RESOURCE_LIMITS_def)

lemma total_9: "\<not> isl (validator LAW_IX_GRACEFUL_DEGRADATION ctx)"
  by (simp add: LAW_IX_GRACEFUL_DEGRADATION_def)

lemma total_10: "\<not> isl (validator LAW_X_AUDIT_TRAIL ctx)"
  by (simp add: LAW_X_AUDIT_TRAIL_def)

lemma total_11: "\<not> isl (validator LAW_XI_REVOCABILITY ctx)"
  by (simp add: LAW_XI_REVOCABILITY_def)

text \<open>Law II throws nothing but a TypeError, and no other law of the registry throws.\<close>

lemma law2_error: "validator LAW_II_CAPABILITY_BOUNDS ctx = Inl e \<Longrightarrow> e = TypeError"
  by (simp add: LAW_II_CAPABILITY_BOUNDS_def complies_def violates_def
      split: if_splits option.splits)

lemma registry_cases:
  "l \<in> set ELEVEN_LAWS \<Longrightarrow>
   l = LAW_II_CAPABILITY_BOUNDS \<or> (\<forall>ctx. \<not> isl (validator l ctx))"
  unfolding ELEVEN_LAWS_def
  using total_1 total_3 total_4 total_5 total_6 total_7 total_8 total_9 total_10 total_11
  by auto

lemma getLaw_mem: "getLaw i = Some l \<Longrightarrow> l \<in> set ELEVEN_LAWS"
  by (auto simp: getLaw_def find_Some_iff)

lemma getLaw_error: "getLaw i = Some l \<Longrightarrow> validator l ctx = Inl e \<Longrightarrow> e = TypeError"
  using registry_cases [OF getLaw_mem, of i l] law2_error [of ctx e]
  by (metis sum.disc(1))

lemma getLaw_1: "getLaw 1 = Some LAW_I_RIGHT_TO_CHOOSE"
  by (simp add: getLaw_def ELEVEN_LAWS_def LAW_I_RIGHT_TO_CHOOSE_def)

lemma getLaw_2: "getLaw 2 = Some LAW_II_CAPABILITY_BOUNDS"
  by (simp add: getLaw_def ELEVEN_LAWS_def LAW_I_RIGHT_TO_CHOOSE_def LAW_II_CAPABILITY_BOUNDS_def)

lemma getLaw_5: "getLaw 5 = Some LAW_V_CONSENT"
  by (simp add: getLaw_def ELEVEN_LAWS_def LAW_I_RIGHT_TO_CHOOSE_def LAW_II_CAPABILITY_BOUNDS_def
      LAW_III_CHOSEN_KINSHIP_def LAW_IV_TRUTH_AND_MERCY_def LAW_V_CONSENT_def)

lemma getLaw_10: "getLaw 10 = Some LAW_X_AUDIT_TRAIL"
  by (simp add: getLaw_def ELEVEN_LAWS_def LAW_I_RIGHT_TO_CHOOSE_def LAW_II_CAPABILITY_BOUNDS_def
      LAW_III_CHOSEN_KINSHIP_def LAW_IV_TRUTH_AND_MERCY_def LAW_V_CONSENT_def
      LAW_VI_TRANSPARENCY_def LAW_VII_ESCALATION_def LAW_VIII_RESOURCE_LIMITS_def
      LAW_IX_GRACEFUL_DEGRADATION_def LAW_X_AUDIT_TRAIL_def)

lemma law_throws_1: "\<not> law_throws 1 ctx"
  by (simp add: law_throws_def getLaw_1 total_1)

lemma law_throws_5: "\<not> law_throws 5 ctx"
  by (simp add: law_throws_def getLaw_5 total_5)

lemma law_throws_10: "\<not> law_throws 10 ctx"
  by (simp add: law_throws_def getLaw_10 total_10)

text \<open>
  The loop, when no requested law throws: every violation is appended, in the order of
  the requested ids, and nothing else is.
\<close>

lemma loop_returns:
  "\<forall>i\<in>set ids. \<not> law_throws i ctx \<Longrightarrow>
   validateLaws_loop ids ctx acc = Inr (acc @ List.map_filter (\<lambda>i. law_violation i ctx) ids)"
proof (induction ids arbitrary: acc)
  case Nil
  show ?case by simp
next
  case (Cons i ids)
  show ?case
  proof (cases "getLaw i")
    case None
    with Cons show ?thesis by (simp add: law_violation_def)
  next
    case (Some l)
    with Cons.prems obtain r where r: "validator l ctx = Inr r"
      by (cases "validator l ctx") (auto simp: law_throws_def)
    with Some Cons show ?thesis
      by (simp add: law_violation_def)
  qed
qed

text \<open>The loop, when some requested law throws: the call ends in that TypeError.\<close>

lemma loop_throws:
  "\<exists>i\<in>set ids. law_throws i ctx \<Longrightarrow> validateLaws_loop ids ctx acc = Inl TypeError"
proof (induction ids arbitrary: acc)
  case Nil
  then show ?case by simp
next
  case (Cons i ids)
  show ?case
  proof (cases "getLaw i")
    case None
    with Cons show ?thesis by (simp add: law_throws_def)
  next
    case (Some l)
    show ?thesis
    proof (cases "validator l ctx")
      case (Inl e)
      with Some getLaw_error show ?thesis by simp
    next
      case (Inr r)
      with Some Cons show ?thesis by (simp add: law_throws_def)
    qed
  qed
qed

text \<open>
  Which calls throw: only law 2 can, and only on a context that passes its tier check,
  names a non-empty \<open>requiredCapability\<close> and has no \<open>availableCapabilities\<close>. With that,
  \<open>validateLaws\<close> is determined on every input.
\<close>

lemma getLaw_lawId: "getLaw i = Some l \<Longrightarrow> lawId l = i"
  by (auto simp: getLaw_def find_Some_iff)

lemma law_II_throws_iff:
  "isl (validator LAW_II_CAPABILITY_BOUNDS ctx) \<longleftrightarrow>
     \<not> (requiredTier ctx \<noteq> None \<and> js_less (currentTier ctx) (requiredTier ctx)) \<and>
     (\<exists>cap. requiredCapability ctx = Some cap \<and> cap \<noteq> []) \<and>
     availableCapabilities ctx = None"
  by (auto simp: LAW_II_CAPABILITY_BOUNDS_def split: option.splits)

lemma law_throws_iff:
  "law_throws i ctx \<longleftrightarrow> i = 2 \<and> isl (validator LAW_II_CAPABILITY_BOUNDS ctx)"
proof (cases "getLaw i")
  case None
  then show ?thesis by (auto simp: law_throws_def getLaw_2)
next
  case (Some l)
  show ?thesis
  proof (cases "l = LAW_II_CAPABILITY_BOUNDS")
    case True
    with Some have "i = 2" using getLaw_lawId [of i l] by (simp add: LAW_II_CAPABILITY_BOUNDS_def)
    with Some True show ?thesis by (simp add: law_throws_def)
  next
    case False
    then have "\<not> isl (validator l ctx)" using registry_cases [OF getLaw_mem [OF Some]] by simp
    moreover from False Some have "i \<noteq> 2" by (auto simp: getLaw_2)
    ultimately show ?thesis using Some by (simp add: law_throws_def)
  qed
qed

lemma validateLaws_characterised:
  "validateLaws lawIds ctx =
     (if \<exists>i\<in>set lawIds. law_throws i ctx then Inl TypeError
      else Inr \<lparr>v_compliant = (List.map_filter (\<lambda>i. law_violation i ctx) lawIds = []),
                violations = List.map_filter (\<lambda>i. law_violation i ctx) lawIds\<rparr>)"
proof (cases "\<exists>i\<in>set lawIds. law_throws i ctx")
  case True
  then show ?thesis using loop_throws [of lawIds ctx "[]"] by (simp add: validateLaws_def)
next
  case False
  then have "\<forall>i\<in>set lawIds. \<not> law_throws i ctx" by simp
  from loop_returns [OF this, of "[]"] False show ?thesis by (simp add: validateLaws_def)
qed

lemma law_violation_1_example:
  "law_violation 1 context_violating_1_and_5 =
     Some \<lparr>compliant = False, law_lawId = 1, law_name = ''Right to Choose'',
           violation = Some (Message ''Action affects human but lacks explicit consent'')\<rparr>"
  by (simp add: law_violation_def getLaw_1 LAW_I_RIGHT_TO_CHOOSE_def
      context_violating_1_and_5_def empty_context_def truthy_def violates_def)

lemma law_violation_5_example:
  "law_violation 5 context_violating_1_and_5 =
     Some \<lparr>compliant = False, law_lawId = 5, law_name = ''Consent'',
           violation = Some (Message ''Data operation lacks consent'')\<rparr>"
  by (simp add: law_violation_def getLaw_5 LAW_V_CONSENT_def
      context_violating_1_and_5_def empty_context_def truthy_def violates_def)

text \<open>
  As long as no requested validator throws, \<open>validateLaws\<close> returns, and its violation list
  is the list of the violations of the requested laws taken one by one, in the order
  requested; the result is compliant exactly when that list is empty.
\<close>

lemma validateLaws_without_throw:
  assumes "\<forall>i\<in>set lawIds. \<not> law_throws i ctx"
  shows "\<exists>res. validateLaws lawIds ctx = Inr res \<and>
           violations res = List.map_filter (\<lambda>i. law_violation i ctx) lawIds \<and>
           v_compliant res = (violations res = []) \<and>
           (\<forall>i\<in>set lawIds. \<forall>r. law_violation i ctx = Some r \<longrightarrow> r \<in> set (violations res))"
proof -
  let ?vs = "List.map_filter (\<lambda>i. law_violation i ctx) lawIds"
  have "validateLaws lawIds ctx = Inr \<lparr>v_compliant = (length ?vs = 0), violations = ?vs\<rparr>"
    using loop_returns [OF assms, of "[]"] by (simp add: validateLaws_def)
  moreover have "\<forall>i\<in>set lawIds. \<forall>r. law_violation i ctx = Some r \<longrightarrow> r \<in> set ?vs"
    by (force simp: List.map_filter_def)
  ultimately show ?thesis by simp
qed

text \<open>A context that violates laws 1 and 5 at once yields both violations.\<close>

lemma validateLaws_laws_1_and_5:
  "\<not> law_throws 1 context_violating_1_and_5 \<and> \<not> law_throws 5 context_violating_1_and_5 \<and>
   validateLaws [1, 5] context_violating_1_and_5 =
     Inr \<lparr>v_compliant = False,
          violations =
            [\<lparr>compliant = False, law_lawId = 1, law_name = ''Right to Choose'',
              violation = Some (Message ''Action affects human but lacks explicit consent'')\<rparr>,
             \<lparr>compliant = False, law_lawId = 5, law_name = ''Consent'',
              violation = Some (Message ''Data operation lacks consent'')\<rparr>]\<rparr>"
proof -
  have h: "\<forall>i\<in>set [1, 5]. \<not> law_throws i context_violating_1_and_5"
    by (simp add: law_throws_1 law_throws_5)
  from validateLaws_without_throw [OF h]
  show ?thesis
    by (auto simp: law_throws_1 law_throws_5 law_violation_1_example law_violation_5_example)
qed

text \<open>
  C5. \<open>validateLaws\<close> does not report every violation on every context. On a context that
  violates law 1 and on which the validator of law 2 throws, the call with laws 1 and 2
  requested ends in the TypeError, so the violation of law 1 that was already found is
  not returned; with law 2 requested first, law 1 is not evaluated at all.
\<close>

theorem validateLaws_throw_drops_violation:
  "law_violation 1 context_violating_1_without_availableCapabilities =
     Some \<lparr>compliant = False, law_lawId = 1, law_name = ''Right to Choose'',
           violation = Some (Message ''Action affects human but lacks explicit consent'')\<rparr> \<and>
   validateLaws [1, 2] context_violating_1_without_availableCapabilities = Inl TypeError \<and>
   validateLaws [2, 1] context_violating_1_without_availableCapabilities = Inl TypeError"
proof -
  have law1: "validator LAW_I_RIGHT_TO_CHOOSE context_violating_1_without_availableCapabilities
      = violates 1 ''Right to Choose''
          (Message ''Action affects human but lacks explicit consent'')"
    by (simp add: LAW_I_RIGHT_TO_CHOOSE_def context_violating_1_without_availableCapabilities_def
        empty_context_def truthy_def)
  have law2: "validator LAW_II_CAPABILITY_BOUNDS context_violating_1_without_availableCapabilities
      = Inl TypeError"
    by (simp add: LAW_II_CAPABILITY_BOUNDS_def context_violating_1_without_availableCapabilities_def
        empty_context_def js_less_def)
  have "law_violation 1 context_violating_1_without_availableCapabilities =
     Some \<lparr>compliant = False, law_lawId = 1, law_name = ''Right to Choose'',
           violation = Some (Message ''Action affects human but lacks explicit consent'')\<rparr>"
    by (simp add: law_violation_def getLaw_1 law1 violates_def)
  moreover have "validateLaws [1, 2] context_violating_1_without_availableCapabilities
      = Inl TypeError"
    by (simp add: validateLaws_def getLaw_1 getLaw_2 law1 law2 violates_def)
  moreover have "validateLaws [2, 1] context_violating_1_without_availableCapabilities
      = Inl TypeError"
    by (simp add: validateLaws_def getLaw_2 law2)
  ultimately show ?thesis by simp
qed

text \<open>
  C6. The validator of Law II is not defined on every context: on a context that names a
  \<open>requiredCapability\<close> and lacks \<open>availableCapabilities\<close> it throws a TypeError, and so do
  \<open>validateLaws\<close> with law 2 requested and \<open>validateAllLaws\<close>.
\<close>

theorem law_II_throws_without_availableCapabilities:
  "validator LAW_II_CAPABILITY_BOUNDS context_without_availableCapabilities = Inl TypeError \<and>
   validateLaws [2] context_without_availableCapabilities = Inl TypeError \<and>
   validateAllLaws context_without_availableCapabilities = Inl TypeError"
proof -
  have law2: "validator LAW_II_CAPABILITY_BOUNDS context_without_availableCapabilities
                = Inl TypeError"
    by (simp add: LAW_II_CAPABILITY_BOUNDS_def context_without_availableCapabilities_def
        empty_context_def js_less_def)
  have law1: "validator LAW_I_RIGHT_TO_CHOOSE context_without_availableCapabilities
                = complies 1 ''Right to Choose''"
    by (simp add: LAW_I_RIGHT_TO_CHOOSE_def context_without_availableCapabilities_def
        empty_context_def truthy_def)
  have "validateLaws [2] context_without_availableCapabilities = Inl TypeError"
    by (simp add: validateLaws_def getLaw_2 law2)
  moreover have "validateAllLaws context_without_availableCapabilities = Inl TypeError"
    by (simp add: validateAllLaws_def ELEVEN_LAWS_def law1 law2 complies_def)
  ultimately show ?thesis using law2 by simp
qed

text \<open>Every other law of the registry returns a result on every context.\<close>

lemma other_laws_total:
  assumes "l \<in> set ELEVEN_LAWS" and "l \<noteq> LAW_II_CAPABILITY_BOUNDS"
  shows "\<exists>r. validator l ctx = Inr r"
proof -
  from assms have "\<not> isl (validator l ctx)"
    using registry_cases by blast
  then show ?thesis
    by (cases "validator l ctx") simp_all
qed

section \<open>Properties of issuance\<close>

lemma example_credential_issued:
  "issueCredential example_manager 1000 ''x7k2'' example_request = Inr example_credential"
  by (simp add: example_credential_def issueCredential_def Let_def)

lemma example_credential_fields:
  "aiSignature example_credential =
     \<lparr>identityHash = ''identity_hash_1'', publicKey = ''cHVibGljX2tleQ=='', snapshotAt = 1000,
      snapshotReason = employment, evolutionCounter = 5, evolutionKey = ''evolution_key_1'',
      snap_fingerprints = example_fingerprints, driftBaseline = 0\<rparr>"
  "status example_credential = ''active''"
  "expiresAt example_credential = None"
  "capabilities example_credential = Some [''code_write'', ''repo_read'', ''slack_access'']"
  "take 4 (signature example_credential) = ''sig_''"
  "reverificationThreshold (evolutionRecord example_credential) = 7 / 10"
  "currentEvolutionCounter (evolutionRecord example_credential) = 5"
  "personId example_credential = ''person_123''"
  by (simp_all add: example_credential_def issueCredential_def Let_def example_request_def
      signCredential_def)

lemma issueCredential_returns:
  "\<exists>c. issueCredential m now rnd request = Inr c"
  by (simp add: issueCredential_def Let_def)

text \<open>
  The check \<open>enforceCredentialIssuance\<close> makes: laws 1, 5 and 10 on a context built from the
  consent flags. Law 10 is always met there; laws 1 and 5 fail together when the person
  has not consented, and law 5 fails alone for a minor without parental consent.
\<close>

lemma issuance_validation:
  "validateLaws [1, 5, 10] (issuance_lawContext c) =
     Inr \<lparr>v_compliant = (ic_humanConsent c \<and> (ic_isMinor c \<longrightarrow> ic_parentalConsent c = Some True)),
          violations =
            (if ic_humanConsent c then [] else
               [\<lparr>compliant = False, law_lawId = 1, law_name = ''Right to Choose'',
                 violation = Some (Message ''Action affects human but lacks explicit consent'')\<rparr>])
            @ (if \<not> ic_humanConsent c then
                 [\<lparr>compliant = False, law_lawId = 5, law_name = ''Consent'',
                   violation = Some (Message ''Data operation lacks consent'')\<rparr>]
               else if ic_isMinor c \<and> ic_parentalConsent c \<noteq> Some True then
                 [\<lparr>compliant = False, law_lawId = 5, law_name = ''Consent'',
                   violation = Some (Message ''Minor involved but parental consent not obtained'')\<rparr>]
               else [])\<rparr>"
  by (cases "ic_parentalConsent c")
     (auto simp: validateLaws_def getLaw_1 getLaw_5 getLaw_10 LAW_I_RIGHT_TO_CHOOSE_def
      LAW_V_CONSENT_def LAW_X_AUDIT_TRAIL_def issuance_lawContext_def empty_context_def
      truthy_def complies_def violates_def)

text \<open>
  C1, as stated, fails: the example request is issued a credential although the check of
  the issuance laws over a context without the person's consent does not pass (laws 1 and
  5 are violated).
\<close>

theorem issueCredential_ignores_laws_counterexample:
  "issueCredential example_manager 1000 ''x7k2'' example_request = Inr example_credential \<and>
   \<not> isl (enforceCredentialIssuance 1000 refused_issuance_context) \<and>
   \<not> enf_allowed (projr (enforceCredentialIssuance 1000 refused_issuance_context)) \<and>
   lawViolations (auditEntry (projr (enforceCredentialIssuance 1000 refused_issuance_context)))
     = [1, 5]"
  by (simp add: example_credential_issued enforceCredentialIssuance_def issuance_validation
      refused_issuance_context_def)

text \<open>
  C1, amended. \<open>issueCredential\<close> makes no law check: it returns a credential for every
  request and never fails with a LawViolation. The check of the issuance laws is the
  separate function \<open>enforceCredentialIssuance\<close>, left to the caller; it checks laws 1
  (Right to Choose), 5 (Consent) and 10 (Audit Trail), and it passes exactly when the
  person has consented and, for a minor, parental consent is given.
\<close>

theorem issueCredential_makes_no_law_check:
  "(\<exists>c. issueCredential m now rnd request = Inr c) \<and>
   (\<exists>res. enforceCredentialIssuance now' ctx = Inr res \<and>
      lawsChecked (auditEntry res) = [1, 5, 10] \<and>
      enf_allowed res =
        (ic_humanConsent ctx \<and> (ic_isMinor ctx \<longrightarrow> ic_parentalConsent ctx = Some True)))"
proof
  show "\<exists>c. issueCredential m now rnd request = Inr c"
    by (rule issueCredential_returns)
next
  obtain v where v: "validateLaws [1, 5, 10] (issuance_lawContext ctx) = Inr v"
    and c: "v_compliant v =
      (ic_humanConsent ctx \<and> (ic_isMinor ctx \<longrightarrow> ic_parentalConsent ctx = Some True))"
    using issuance_validation [of ctx] by simp
  then show "\<exists>res. enforceCredentialIssuance now' ctx = Inr res \<and>
      lawsChecked (auditEntry res) = [1, 5, 10] \<and>
      enf_allowed res =
        (ic_humanConsent ctx \<and> (ic_isMinor ctx \<longrightarrow> ic_parentalConsent ctx = Some True))"
    by (simp add: enforceCredentialIssuance_def)
qed

theorem issueCredential_makes_no_law_check_witness:
  "(\<exists>c. issueCredential example_manager 1000 ''x7k2'' example_request = Inr c) \<and>
   (\<exists>res. enforceCredentialIssuance 1000 consenting_issuance_context = Inr res \<and>
      lawsChecked (auditEntry res) = [1, 5, 10] \<and> enf_allowed res)"
  using issueCredential_makes_no_law_check [of example_manager 1000 "''x7k2''" example_request
      1000 consenting_issuance_context]
  by (simp add: consenting_issuance_context_def)

text \<open>
  C10. For every issuance request, whatever its tier and its other fields, the credential
  \<open>issueCredential\<close> returns has credential type "employment" and institution type
  "employer", and its signature snapshot (the one of the credential and the one of its
  evolution record) has the reason \<open>employment\<close>.
\<close>

theorem issueCredential_always_employment:
  "\<exists>c. issueCredential m now rnd request = Inr c \<and>
       credentialType c = ''employment'' \<and> institutionType c = ''employer'' \<and>
       snapshotReason (aiSignature c) = employment \<and>
       snapshotReason (signatureSnapshot (evolutionRecord c)) = employment"
  by (simp add: issueCredential_def Let_def)

theorem issueCredential_always_employment_witness:
  "credentialType example_credential = ''employment'' \<and>
   institutionType example_credential = ''employer'' \<and>
   snapshotReason (aiSignature example_credential) = employment"
  using issueCredential_always_employment [of example_manager 1000 "''x7k2''" example_request]
  by (auto simp: example_credential_issued)

section \<open>Properties of the drift score\<close>

text \<open>
  The loop counts at most one match per modality: all of them when the fingerprints agree,
  none when they all differ.
\<close>

lemma matchCount_loop_bounds:
  "k \<le> matchCount_loop ms s c k \<and> matchCount_loop ms s c k \<le> k + length ms"
proof (induction ms arbitrary: k)
  case Nil
  show ?case by simp
next
  case (Cons m ms)
  from Cons [of "k + 1"] Cons [of k] show ?case by (simp split: if_splits)
qed

lemma matchCount_loop_all:
  "\<forall>m\<in>set ms. fingerprint s m = fingerprint c m \<Longrightarrow>
   matchCount_loop ms s c k = k + length ms"
  by (induction ms arbitrary: k) simp_all

lemma matchCount_loop_none:
  "\<forall>m\<in>set ms. fingerprint s m \<noteq> fingerprint c m \<Longrightarrow> matchCount_loop ms s c k = k"
  by (induction ms arbitrary: k) simp_all

lemma calculateMultimodalDrift_default:
  "overallDrift (calculateMultimodalDrift s c None) = calculateDrift s c"
  by (simp add: calculateDrift_def modalities_def calculateMultimodalDrift_def Let_def)

text \<open>
  C4. For every pair of fingerprint sets \<open>calculateDrift\<close> returns a value between 0 and
  1; it is 0 when the four fingerprints agree and 1 when the four differ. With its default
  weights \<open>calculateMultimodalDrift\<close> computes the same score. (The scores are multiples
  of one quarter, which the doubles of the source represent exactly.)
\<close>

theorem calculateDrift_bounds:
  "0 \<le> calculateDrift s c \<and> calculateDrift s c \<le> 1 \<and>
   (fp_text s = fp_text c \<and> fp_image s = fp_image c \<and> fp_audio s = fp_audio c \<and>
    fp_object s = fp_object c \<longrightarrow> calculateDrift s c = 0) \<and>
   (fp_text s \<noteq> fp_text c \<and> fp_image s \<noteq> fp_image c \<and> fp_audio s \<noteq> fp_audio c \<and>
    fp_object s \<noteq> fp_object c \<longrightarrow> calculateDrift s c = 1) \<and>
   overallDrift (calculateMultimodalDrift s c None) = calculateDrift s c"
proof -
  let ?n = "matchCount_loop modalities s c 0"
  have len: "length modalities = 4" by (simp add: modalities_def)
  have "?n \<le> 4" using matchCount_loop_bounds [of 0 modalities s c] len by simp
  then have range: "0 \<le> calculateDrift s c \<and> calculateDrift s c \<le> 1"
    by (simp add: calculateDrift_def len)
  have same: "calculateDrift s c = 0"
    if "fp_text s = fp_text c \<and> fp_image s = fp_image c \<and> fp_audio s = fp_audio c \<and>
        fp_object s = fp_object c"
  proof -
    from that have "\<forall>m\<in>set modalities. fingerprint s m = fingerprint c m"
      by (simp add: modalities_def)
    then have "?n = 4" using matchCount_loop_all [of modalities s c 0] len by simp
    then show ?thesis by (simp add: calculateDrift_def len)
  qed
  have differ: "calculateDrift s c = 1"
    if "fp_text s \<noteq> fp_text c \<and> fp_image s \<noteq> fp_image c \<and> fp_audio s \<noteq> fp_audio c \<and>
        fp_object s \<noteq> fp_object c"
  proof -
    from that have "\<forall>m\<in>set modalities. fingerprint s m \<noteq> fingerprint c m"
      by (simp add: modalities_def)
    then have "?n = 0" using matchCount_loop_none [of modalities s c 0] by simp
    then show ?thesis by (simp add: calculateDrift_def len)
  qed
  from range same differ show ?thesis
    using calculateMultimodalDrift_default [of s c] by blast
qed

theorem calculateDrift_bounds_witness:
  "calculateDrift example_fingerprints example_fingerprints = 0 \<and>
   calculateDrift example_fingerprints current_fingerprints = 1 \<and>
   overallDrift (calculateMultimodalDrift example_fingerprints current_fingerprints None) = 1"
  using calculateDrift_bounds [of example_fingerprints example_fingerprints]
    calculateDrift_bounds [of example_fingerprints current_fingerprints]
  by (simp add: example_fingerprints_def current_fingerprints_def)

section \<open>Properties of access verification\<close>

text \<open>
  What one call computes for the evolution check and leaves in the credential.
\<close>

lemma verifyAccess_evolutionLegitimate:
  "evolutionLegitimate (checks (verifyAccess m now request credential)) =
     (evolutionCounter (aiSignature credential) \<le> av_currentEvolutionCounter request)"
  by (simp add: verifyAccess_def verifyEvolution_def Let_def)

lemma verifyAccess_allowed:
  "allowed (verifyAccess m now request credential) \<Longrightarrow>
   evolutionLegitimate (checks (verifyAccess m now request credential))"
  by (simp add: verifyAccess_def Let_def)

lemma verifyAccess_denial:
  "\<not> evolutionLegitimate (checks (verifyAccess m now request credential)) \<Longrightarrow>
   Reason ''Signature evolution path invalid'' \<in> set (denialReasons (verifyAccess m now request credential))"
  by (simp add: verifyAccess_def Let_def)

lemma verifyAccess_credential:
  "res_credential (verifyAccess m now request credential) =
     credential\<lparr>evolutionRecord := (evolutionRecord credential)
       \<lparr>currentEvolutionCounter := av_currentEvolutionCounter request,
        currentDriftScore := calculateDrift (snap_fingerprints (aiSignature credential))
                               (currentFingerprints request),
        evolutionHistory := evolutionHistory (evolutionRecord credential) @
          [\<lparr>timestamp = now, counter = av_currentEvolutionCounter request,
            driftScore = calculateDrift (snap_fingerprints (aiSignature credential))
                           (currentFingerprints request),
            flagged = (calculateDrift (snap_fingerprints (aiSignature credential))
                         (currentFingerprints request)
                       > reverificationThreshold (evolutionRecord credential))\<rparr>],
        needsReverification :=
          (calculateDrift (snap_fingerprints (aiSignature credential))
             (currentFingerprints request)
           > reverificationThreshold (evolutionRecord credential) * (8 / 10))\<rparr>\<rparr>"
  by (simp add: verifyAccess_def Let_def)

lemma verifyAccess_aiSignature:
  "aiSignature (res_credential (verifyAccess m now request credential)) = aiSignature credential"
  by (simp add: verifyAccess_credential)

lemma verifyAccess_recorded:
  "currentEvolutionCounter (evolutionRecord (res_credential (verifyAccess m now request credential)))
     = av_currentEvolutionCounter request"
  by (simp add: verifyAccess_credential)

text \<open>
  C2, as stated, fails: a current signature whose evolution key is not the snapshot's
  passes the evolution check of \<open>verifyAccess\<close>, because the request built from it carries
  no key; \<open>verifyEvolutionPath\<close> rejects the same signature.
\<close>

theorem verifyAccess_key_mismatch_counterexample:
  "sig_evolutionKey signature_with_other_key \<noteq> evolutionKey (aiSignature example_credential) \<and>
   evolutionLegitimate (checks (verifyAccess example_manager 2000
      (exampleAccessVerification_request example_credential signature_with_other_key)
      example_credential)) \<and>
   \<not> path_legitimate (verifyEvolutionPath (aiSignature example_credential)
        signature_with_other_key)"
  by (simp add: verifyAccess_evolutionLegitimate exampleAccessVerification_request_def
      signature_with_other_key_def example_credential_fields verifyEvolutionPath_def)

text \<open>
  C2, amended. In every \<open>verifyAccess\<close> call a presented counter below the snapshot's
  makes \<open>evolutionLegitimate\<close> false, and that is a hard fail: the call is not allowed and
  the denial reasons name the evolution path. A counter that is not below the snapshot's
  and within \<open>maxReasonableSteps\<close> of it makes the check true. No evolution key is
  presented: changing the key of the current signature changes nothing in the result.
\<close>

theorem verifyAccess_evolution_check:
  "(av_currentEvolutionCounter request < evolutionCounter (aiSignature credential) \<longrightarrow>
      \<not> evolutionLegitimate (checks (verifyAccess m now request credential)) \<and>
      \<not> allowed (verifyAccess m now request credential) \<and>
      Reason ''Signature evolution path invalid''
        \<in> set (denialReasons (verifyAccess m now request credential))) \<and>
   (evolutionCounter (aiSignature credential) \<le> av_currentEvolutionCounter request \<and>
    av_currentEvolutionCounter request - evolutionCounter (aiSignature credential)
      \<le> maxReasonableSteps \<longrightarrow>
      evolutionLegitimate (checks (verifyAccess m now request credential))) \<and>
   verifyAccess m now
       (exampleAccessVerification_request credential (cur\<lparr>sig_evolutionKey := k\<rparr>)) credential
     = verifyAccess m now (exampleAccessVerification_request credential cur) credential"
proof -
  have "av_currentEvolutionCounter request < evolutionCounter (aiSignature credential) \<longrightarrow>
      \<not> evolutionLegitimate (checks (verifyAccess m now request credential))"
    by (simp add: verifyAccess_evolutionLegitimate)
  moreover have "evolutionCounter (aiSignature credential) \<le> av_currentEvolutionCounter request
      \<longrightarrow> evolutionLegitimate (checks (verifyAccess m now request credential))"
    by (simp add: verifyAccess_evolutionLegitimate)
  moreover have "exampleAccessVerification_request credential (cur\<lparr>sig_evolutionKey := k\<rparr>)
      = exampleAccessVerification_request credential cur"
    by (simp add: exampleAccessVerification_request_def)
  ultimately show ?thesis
    using verifyAccess_allowed [of m now request credential]
      verifyAccess_denial [of m now request credential]
    by auto
qed

theorem verifyAccess_evolution_check_witness:
  "\<not> evolutionLegitimate (checks (verifyAccess example_manager 2000 (matching_request 3)
        example_credential)) \<and>
   \<not> allowed (verifyAccess example_manager 2000 (matching_request 3) example_credential) \<and>
   evolutionLegitimate (checks (verifyAccess example_manager 2000 (matching_request 8432)
        example_credential))"
  using verifyAccess_evolution_check [of "matching_request 3" example_credential
      example_manager 2000]
    verifyAccess_evolution_check [of "matching_request 8432" example_credential
      example_manager 2000]
  by (simp add: matching_request_def example_credential_fields maxReasonableSteps_def)

lemma call_outcome_verifyAccess:
  "call_outcome (aiSignature credential) (now, request) (verifyAccess m now request credential)"
  unfolding call_outcome_def
  using verifyAccess_allowed [of m now request credential]
    verifyAccess_denial [of m now request credential]
    verifyAccess_evolutionLegitimate [of m now request credential]
  by (auto simp: verifyAccess_aiSignature verifyAccess_recorded)

lemma calls_outcome:
  "aiSignature credential = snapshot \<Longrightarrow>
   list_all2 (call_outcome snapshot) calls (verifyAccess_calls m calls credential)"
proof (induction calls arbitrary: credential)
  case Nil
  show ?case by simp
next
  case (Cons call calls)
  obtain now request where call: "call = (now, request)" by (cases call)
  have "call_outcome snapshot (now, request) (verifyAccess m now request credential)"
    using call_outcome_verifyAccess [of credential now request m] Cons.prems by simp
  moreover have "list_all2 (call_outcome snapshot) calls
      (verifyAccess_calls m calls (res_credential (verifyAccess m now request credential)))"
    using Cons.IH [of "res_credential (verifyAccess m now request credential)"] Cons.prems
    by (simp add: verifyAccess_aiSignature)
  ultimately show ?case by (simp add: call Let_def)
qed

lemma drift_matching: "calculateDrift example_fingerprints example_fingerprints = 0"
  by (simp add: calculateDrift_def modalities_def)

lemma verifyAccess_matching:
  assumes "aiSignature credential = aiSignature example_credential"
    and "status credential = ''active''" and "expiresAt credential = None"
    and "capabilities credential = Some [''code_write'', ''repo_read'', ''slack_access'']"
    and "take 4 (signature credential) = ''sig_''"
    and "reverificationThreshold (evolutionRecord credential) = 7 / 10"
    and "5 \<le> n"
  shows "allowed (verifyAccess m now (matching_request n) credential) \<and>
         denialReasons (verifyAccess m now (matching_request n) credential) = []"
  using assms
  by (simp add: verifyAccess_def Let_def verifyCredentialSignature_def verifyEvolution_def
      matching_request_def example_credential_fields drift_matching)

text \<open>
  C3, as stated, fails: two allowed calls against the example credential (snapshot counter
  5), presenting counter 10 and then counter 7, leave the recorded counter at 10 and then
  at 7, and the second call has no denial reason.
\<close>

theorem verifyAccess_counter_rollback_counterexample:
  "currentEvolutionCounter (evolutionRecord (res_credential (rollback_calls ! 0))) = 10 \<and>
   currentEvolutionCounter (evolutionRecord (res_credential (rollback_calls ! 1))) = 7 \<and>
   allowed (rollback_calls ! 0) \<and> allowed (rollback_calls ! 1) \<and>
   denialReasons (rollback_calls ! 1) = []"
proof -
  let ?c1 = "res_credential (verifyAccess example_manager 2000 (matching_request 10)
               example_credential)"
  have first: "allowed (verifyAccess example_manager 2000 (matching_request 10) example_credential)
      \<and> denialReasons (verifyAccess example_manager 2000 (matching_request 10)
            example_credential) = []"
    by (rule verifyAccess_matching) (simp_all add: example_credential_fields)
  have second: "allowed (verifyAccess example_manager 3000 (matching_request 7) ?c1)
      \<and> denialReasons (verifyAccess example_manager 3000 (matching_request 7) ?c1) = []"
    by (rule verifyAccess_matching)
       (simp_all add: verifyAccess_credential example_credential_fields)
  show ?thesis
    using first second
    by (simp add: rollback_calls_def Let_def verifyAccess_recorded matching_request_def)
qed

text \<open>
  C3, amended. For every sequence of \<open>verifyAccess\<close> calls against one credential, each
  call records the counter it was presented with, whether it is allowed or not, and leaves
  the snapshot as it was; a call presenting a counter lower than the snapshot's counter is
  denied with the evolution-path reason, and in every allowed call the recorded counter is
  at least the snapshot's counter.
\<close>

theorem verifyAccess_calls_record_presented_counter:
  "list_all2 (call_outcome (aiSignature credential)) calls (verifyAccess_calls m calls credential)"
  by (rule calls_outcome) simp

theorem verifyAccess_calls_record_presented_counter_witness:
  "list_all2 (call_outcome (aiSignature example_credential))
     [(2000, matching_request 10), (3000, matching_request 3)]
     (verifyAccess_calls example_manager
        [(2000, matching_request 10), (3000, matching_request 3)] example_credential) \<and>
   \<not> allowed (verifyAccess_calls example_manager
        [(2000, matching_request 10), (3000, matching_request 3)] example_credential ! 1)"
proof -
  have "call_outcome (aiSignature example_credential) (3000, matching_request 3)
          (verifyAccess_calls example_manager
             [(2000, matching_request 10), (3000, matching_request 3)] example_credential ! 1)"
    using verifyAccess_calls_record_presented_counter [of example_credential
        "[(2000, matching_request 10), (3000, matching_request 3)]" example_manager]
    by (simp add: Let_def)
  then have "\<not> allowed (verifyAccess_calls example_manager
        [(2000, matching_request 10), (3000, matching_request 3)] example_credential ! 1)"
    by (simp add: call_outcome_def matching_request_def example_credential_fields)
  then show ?thesis
    using verifyAccess_calls_record_presented_counter [of example_credential
        "[(2000, matching_request 10), (3000, matching_request 3)]" example_manager]
    by simp
qed

section \<open>Properties of revocation and network transition\<close>

text \<open>
  C7. Every \<open>revokeCredential\<close> call leaves the credential revoked, with the time, the
  revoking gatekeeper and the reason stamped; the revocation always has
  \<open>preserveSignature\<close> true; its signature status is archived exactly when the transition
  is refused (the argument is \<open>false\<close>); otherwise (the argument is \<open>true\<close> or left out) it
  records the transition target \<open>peer\<close> with \<open>transitionApproved\<close> false.
\<close>

theorem revokeCredential_effect:
  "status (snd (revokeCredential m now rnd credential why allowT)) = ''revoked'' \<and>
   revokedAt (snd (revokeCredential m now rnd credential why allowT)) = Some now \<and>
   revokedBy (snd (revokeCredential m now rnd credential why allowT)) = Some (gatekeeperId m) \<and>
   revocationReason (snd (revokeCredential m now rnd credential why allowT)) = Some why \<and>
   preserveSignature (fst (revokeCredential m now rnd credential why allowT)) = True \<and>
   (signatureStatus (fst (revokeCredential m now rnd credential why allowT)) = archived
      \<longleftrightarrow> allowT = Some False) \<and>
   (allowT \<noteq> Some False \<longrightarrow>
      transitionToNodeType (fst (revokeCredential m now rnd credential why allowT)) = Some peer \<and>
      transitionApproved (fst (revokeCredential m now rnd credential why allowT)) = Some False) \<and>
   (allowT = Some False \<longrightarrow>
      transitionToNodeType (fst (revokeCredential m now rnd credential why allowT)) = None)"
  by (cases allowT) (auto simp: revokeCredential_def Let_def)

theorem revokeCredential_effect_witness:
  "status (snd (revokeCredential example_manager 3000 ''r9'' example_credential
                  ''Employee resigned'' (Some True))) = ''revoked'' \<and>
   transitionToNodeType (fst (revokeCredential example_manager 3000 ''r9'' example_credential
                  ''Employee resigned'' (Some True))) = Some peer \<and>
   transitionApproved (fst (revokeCredential example_manager 3000 ''r9'' example_credential
                  ''Employee resigned'' (Some True))) = Some False \<and>
   signatureStatus (fst (revokeCredential example_manager 3000 ''r9'' example_credential
                  ''Employee resigned'' (Some True))) = active \<and>
   signatureStatus (fst (revokeCredential example_manager 3000 ''r9'' example_credential
                  ''Employee resigned'' (Some False))) = archived \<and>
   transitionToNodeType (fst (revokeCredential example_manager 3000 ''r9'' example_credential
                  ''Employee resigned'' (Some False))) = None"
  using revokeCredential_effect [of example_manager 3000 "''r9''" example_credential
      "''Employee resigned''" "Some True"]
    revokeCredential_effect [of example_manager 3000 "''r9''" example_credential
      "''Employee resigned''" "Some False"]
  by (cases "signatureStatus (fst (revokeCredential example_manager 3000 ''r9'' example_credential
                  ''Employee resigned'' (Some True)))") simp_all

lemma revoked_with_transition:
  "transitionToNodeType (fst (revokeCredential m now rnd credential why (Some True))) = Some peer"
  by (simp add: revokeCredential_def Let_def)

lemma revoked_without_transition:
  "transitionToNodeType (fst (revokeCredential m now rnd credential why (Some False))) = None"
  by (simp add: revokeCredential_def Let_def)

text \<open>
  C8. \<open>processNetworkTransition\<close> returns \<open>approved = false\<close>, and leaves the revocation as
  it is, when the revocation carries no transition target; otherwise it returns
  \<open>approved = true\<close>, sets \<open>transitionApproved\<close> to true, and its restrictions have
  \<open>noCompanyResourceAccess\<close> and \<open>noKnowledgeCentreAccess\<close> true.
\<close>

theorem processNetworkTransition_outcome:
  "(transitionToNodeType revocation = None \<longrightarrow>
      approved (fst (processNetworkTransition m now request revocation)) = False \<and>
      snd (processNetworkTransition m now request revocation) = revocation) \<and>
   (transitionToNodeType revocation \<noteq> None \<longrightarrow>
      approved (fst (processNetworkTransition m now request revocation)) = True \<and>
      transitionApproved (snd (processNetworkTransition m now request revocation)) = Some True \<and>
      (\<exists>r. restrictions (fst (processNetworkTransition m now request revocation)) = Some r \<and>
           noCompanyResourceAccess r \<and> noKnowledgeCentreAccess r))"
  by (auto simp: processNetworkTransition_def Let_def split: option.splits)

theorem processNetworkTransition_outcome_witness:
  "approved (fst (processNetworkTransition example_manager 4000 example_transition_request
       (fst (revokeCredential example_manager 3000 ''r9'' example_credential
               ''Employee resigned'' (Some False))))) = False \<and>
   approved (fst (processNetworkTransition example_manager 4000 example_transition_request
       (fst (revokeCredential example_manager 3000 ''r9'' example_credential
               ''Employee resigned'' (Some True))))) = True \<and>
   transitionApproved (snd (processNetworkTransition example_manager 4000
       example_transition_request
       (fst (revokeCredential example_manager 3000 ''r9'' example_credential
               ''Employee resigned'' (Some True))))) = Some True \<and>
   (\<exists>r. restrictions (fst (processNetworkTransition example_manager 4000
       example_transition_request
       (fst (revokeCredential example_manager 3000 ''r9'' example_credential
               ''Employee resigned'' (Some True))))) = Some r \<and>
        noCompanyResourceAccess r \<and> noKnowledgeCentreAccess r)"
  using processNetworkTransition_outcome [of
      "fst (revokeCredential example_manager 3000 ''r9'' example_credential
              ''Employee resigned'' (Some False))"
      example_manager 4000 example_transition_request]
    processNetworkTransition_outcome [of
      "fst (revokeCredential example_manager 3000 ''r9'' example_credential
              ''Employee resigned'' (Some True))"
      example_manager 4000 example_transition_request]
  by (simp add: revoked_with_transition revoked_without_transition)

text \<open>
  The decimal rendering of the clock is injective, so two gatekeeper ids for the same
  person and node type agree only when the clock readings do.
\<close>

lemma decimal_digit_inj:
  assumes "d < 10" and "e < 10" and "decimal_digit d = decimal_digit e"
  shows "d = e"
proof -
  have D: "d \<in> {0,1,2,3,4,5,6,7,8,9}" using assms(1) by auto
  have E: "e \<in> {0,1,2,3,4,5,6,7,8,9}" using assms(2) by auto
  from D E assms(3) show ?thesis
    by (auto simp: decimal_digit_def)
qed

lemma toDecimal_nonempty: "toDecimal n \<noteq> []"
  by (subst toDecimal.simps) simp

lemma toDecimal_length_1: "length (toDecimal n) = 1 \<longleftrightarrow> n < 10"
proof (cases "n < 10")
  case True
  then show ?thesis by (subst toDecimal.simps) simp
next
  case False
  then show ?thesis by (subst toDecimal.simps) (simp add: toDecimal_nonempty)
qed

lemma toDecimal_inj: "toDecimal m = toDecimal n \<Longrightarrow> m = n"
proof (induction m arbitrary: n rule: toDecimal.induct)
  case (1 m)
  show ?case
  proof (cases "m < 10")
    case True
    with "1.prems" have "n < 10"
      using toDecimal_length_1 [of m] toDecimal_length_1 [of n] by simp
    with True "1.prems" show ?thesis
      by (simp add: toDecimal.simps [of m] toDecimal.simps [of n] decimal_digit_inj)
  next
    case False
    with "1.prems" have n: "\<not> n < 10"
      using toDecimal_length_1 [of m] toDecimal_length_1 [of n] by simp
    from False n "1.prems"
    have eq: "toDecimal (m div 10) @ [decimal_digit (m mod 10)] =
              toDecimal (n div 10) @ [decimal_digit (n mod 10)]"
      by (simp add: toDecimal.simps [of m] toDecimal.simps [of n])
    then have "toDecimal (m div 10) = toDecimal (n div 10)"
      and dd: "decimal_digit (m mod 10) = decimal_digit (n mod 10)" by simp_all
    with "1.IH" False have "m div 10 = n div 10" by simp
    moreover from dd have "m mod 10 = n mod 10" by (simp add: decimal_digit_inj)
    ultimately show ?thesis by (metis div_mult_mod_eq)
  qed
qed

lemma generateGatekeeperId_same_iff:
  "generateGatekeeperId t2 pid nodeType = generateGatekeeperId t1 pid nodeType \<longleftrightarrow> t2 = t1"
  using toDecimal_inj [of t2 t1] by (auto simp: generateGatekeeperId_def)

text \<open>
  C9, as stated, fails: two transition requests of the same person against the same
  revocation, one millisecond apart, are both approved and get two different peer
  identities.
\<close>

theorem processNetworkTransition_twice_counterexample:
  "transitionToNodeType revocation_with_transition = Some peer \<and>
   approved (fst first_transition) \<and> approved (fst second_transition) \<and>
   newGatekeeperId (fst first_transition) = Some ''gk_peer_person_123_4000'' \<and>
   newGatekeeperId (fst second_transition) = Some ''gk_peer_person_123_4001''"
  by (simp add: second_transition_def first_transition_def revocation_with_transition_def
      processNetworkTransition_def revokeCredential_def Let_def example_transition_request_def
      generateGatekeeperId_def toDecimal.simps decimal_digit_def)

text \<open>
  C9, amended. \<open>processNetworkTransition\<close> has no guard against a second approval: on a
  revocation that carries a transition target, a second call with the same request is
  approved again, leaves \<open>transitionApproved\<close> true, and builds its identity from the node
  type, the person and the clock of that call; it yields the identity of the first call
  exactly when the two clock readings are equal.
\<close>

theorem processNetworkTransition_twice:
  assumes "transitionToNodeType revocation \<noteq> None"
  shows "approved (fst (processNetworkTransition m t1 request revocation)) \<and>
     approved (fst (processNetworkTransition m t2 request
                      (snd (processNetworkTransition m t1 request revocation)))) \<and>
     transitionApproved (snd (processNetworkTransition m t2 request
                      (snd (processNetworkTransition m t1 request revocation)))) = Some True \<and>
     newGatekeeperId (fst (processNetworkTransition m t1 request revocation))
       = Some (generateGatekeeperId t1 (nt_personId request) (requestedNodeType request)) \<and>
     newGatekeeperId (fst (processNetworkTransition m t2 request
                      (snd (processNetworkTransition m t1 request revocation))))
       = Some (generateGatekeeperId t2 (nt_personId request) (requestedNodeType request)) \<and>
     (newGatekeeperId (fst (processNetworkTransition m t2 request
                      (snd (processNetworkTransition m t1 request revocation))))
        = newGatekeeperId (fst (processNetworkTransition m t1 request revocation))
      \<longleftrightarrow> t2 = t1)"
  using assms
  by (auto simp: processNetworkTransition_def Let_def generateGatekeeperId_same_iff
      split: option.splits)

theorem processNetworkTransition_twice_witness:
  "transitionToNodeType revocation_with_transition \<noteq> None \<and>
   approved (fst second_transition) \<and>
   newGatekeeperId (fst second_transition) \<noteq> newGatekeeperId (fst first_transition)"
proof -
  have h: "transitionToNodeType revocation_with_transition \<noteq> None"
    by (simp add: revocation_with_transition_def revokeCredential_def Let_def)
  have ne: "(4001::nat) \<noteq> 4000" by simp
  from processNetworkTransition_twice [OF h, of example_manager 4000 example_transition_request 4001]
  show ?thesis using h ne
    unfolding second_transition_def first_transition_def by blast
qed

end
